theory Spec2Isabelle
  imports Complex_Main
begin

section \<open>The completion waiter of the SEMagi API client\<close>

text \<open>
  This theory embeds the polling and retry logic of \<^verbatim>\<open>scripts/api_client.py\<close>
  (class \<^verbatim>\<open>SEMagiAPIClient\<close>): \<^verbatim>\<open>get_task_status\<close>, \<^verbatim>\<open>get_task_results\<close>,
  \<^verbatim>\<open>get_task_results_with_retry\<close> and \<^verbatim>\<open>wait_for_completion\<close>.

  The client talks to its environment through four primitives: \<^verbatim>\<open>time.time()\<close>,
  \<^verbatim>\<open>time.sleep(d)\<close> and the two HTTP requests. The environment is modelled as a
  \<open>world\<close> that holds, for each primitive, the list of answers it will give to the
  successive calls, and a trace of the calls made so far. A function that needs an answer
  the world does not hold returns \<open>None\<close>; exceptions are values of type \<open>exn\<close>.

  Conventions of the model:
  \<^item> Python floats (clock values, sleep lengths) are real numbers and Python integers are
    \<open>int\<close>; rounding of floats is not modelled.
  \<^item> \<^verbatim>\<open>print\<close> and \<^verbatim>\<open>_display_results\<close> only write to the terminal and are left out,
    except for the progress line of line 357, whose format specification can fail.
  \<^item> The body of a 200 answer of the status endpoint is a JSON object; what it holds under
    \<^verbatim>\<open>estimate_time\<close> and \<^verbatim>\<open>result\<close> is any JSON value.
  \<^item> An exception message is represented by the template it is built from; the test
    \<^verbatim>\<open>"..." in str(e)\<close> of the source looks for the text of the 409 template, and a
    task identifier is taken not to contain that text.
  \<^item> A user interrupt (\<^verbatim>\<open>KeyboardInterrupt\<close>) is delivered while the program is blocked
    in a sleep or in a request.
\<close>

subsection \<open>Data model\<close>

type_synonym task_id = string

text \<open>The values that \<^verbatim>\<open>response.json()\<close> returns.\<close>

datatype json =
    JNull
  | JBool bool
  | JNum real
  | JStr string
  | JArray "json list"
  | JObject "(string \<times> json) list"

text \<open>A JSON object (a Python \<^verbatim>\<open>dict\<close>) as an association list.\<close>

type_synonym payload = "(string \<times> json) list"

text \<open>Python's truth value of a JSON value, as in \<^verbatim>\<open>x and y\<close> and \<^verbatim>\<open>if x\<close>.\<close>

fun truthy :: "json \<Rightarrow> bool" where
  "truthy JNull = False"
| "truthy (JBool b) = b"
| "truthy (JNum x) = (x \<noteq> 0)"
| "truthy (JStr t) = (t \<noteq> [])"
| "truthy (JArray xs) = (xs \<noteq> [])"
| "truthy (JObject kvs) = (kvs \<noteq> [])"

text \<open>The dictionary returned by the status endpoint; a missing key is \<open>None\<close>.\<close>

record snapshot =
  st_status :: "string option"
  st_estimate_time :: "json option"
  st_message :: "string option"
  st_result :: "json option"

text \<open>\<^verbatim>\<open>self.polling_config\<close>, after the \<^verbatim>\<open>.get(key, default)\<close> calls of lines 303-309.\<close>

record polling_config =
  respect_estimate_time :: bool
  custom_interval_seconds :: real
  min_interval_seconds :: real
  max_interval_seconds :: real
  limited_retry_strategy :: bool
  max_retries :: int
  retry_on_error :: bool

definition default_config :: polling_config where
  "default_config =
     \<lparr>respect_estimate_time = True, custom_interval_seconds = 5,
      min_interval_seconds = 2, max_interval_seconds = 30,
      limited_retry_strategy = True, max_retries = 3, retry_on_error = True\<rparr>"

text \<open>The three message templates of \<^verbatim>\<open>ValueError\<close> raised by the client (404 on status,
  404 on results, 409 on results), a body that is not JSON, the error of
  \<^verbatim>\<open>time.sleep\<close> on a negative length, and the error of the format specification
  \<^verbatim>\<open>.0f\<close> on a string.\<close>

datatype msg =
  Task_missing | Result_missing | Not_completed | Bad_json | Negative_sleep | Bad_format

datatype exn =
    ValueError msg
  | TypeError
  | HTTPError
  | RequestException
  | TimeoutError
  | KeyboardInterrupt

text \<open>\<^verbatim>\<open>except Exception\<close> catches everything but \<^verbatim>\<open>KeyboardInterrupt\<close>.\<close>

fun is_Exception :: "exn \<Rightarrow> bool" where
  "is_Exception KeyboardInterrupt = False"
| "is_Exception _ = True"

fun is_ValueError :: "exn \<Rightarrow> bool" where
  "is_ValueError (ValueError _) = True"
| "is_ValueError _ = False"

text \<open>The test \<^verbatim>\<open>"<409 template>" in str(e)\<close> of lines 251 and 383.\<close>

fun not_completed_in :: "exn \<Rightarrow> bool" where
  "not_completed_in (ValueError m) = (m = Not_completed)"
| "not_completed_in _ = False"

text \<open>The dictionaries that \<^verbatim>\<open>wait_for_completion\<close> returns, by the value of their
  \<^verbatim>\<open>status\<close> key: the embedded result (line 372), the snapshot marked completed
  (lines 381, 389, 394, 400), the snapshot of a failed task (line 407), the snapshot marked
  \<^verbatim>\<open>polling_limit_reached\<close> (line 444) and the interrupt record (line 448).\<close>

datatype outcome =
    Completed_with_result payload
  | Completed snapshot
  | Failed snapshot
  | Polling_limit_reached snapshot
  | Interrupted task_id

subsection \<open>The environment\<close>

text \<open>What \<^verbatim>\<open>session.request\<close> does: a response with a status code and a body
  (\<open>None\<close> when the body does not parse as JSON), a transport failure, or a user
  interrupt while waiting.\<close>

datatype 'a http_reply = Response nat "'a option" | Request_failed | Request_interrupted

datatype sleep_reply = Slept | Sleep_interrupted

datatype action =
    Clock real
  | Sleep real
  | Get_status "exn + snapshot"
  | Get_results "exn + json"

record world =
  clock :: "real list"
  sleeps :: "sleep_reply list"
  status_replies :: "snapshot http_reply list"
  result_replies :: "json http_reply list"
  trace :: "action list"

definition time_time :: "world \<Rightarrow> (real \<times> world) option" where
  "time_time w =
     (case clock w of
        [] \<Rightarrow> None
      | t # ts \<Rightarrow> Some (t, w\<lparr>clock := ts, trace := trace w @ [Clock t]\<rparr>))"

text \<open>\<^verbatim>\<open>time.sleep(d)\<close> raises \<^verbatim>\<open>ValueError\<close> on a negative length, without
  sleeping.\<close>

definition time_sleep :: "real \<Rightarrow> world \<Rightarrow> ((exn + unit) \<times> world) option" where
  "time_sleep d w =
     (if d < 0 then Some (Inl (ValueError Negative_sleep), w)
      else case sleeps w of
        [] \<Rightarrow> None
      | r # rs \<Rightarrow>
          Some (case r of Slept \<Rightarrow> Inr () | Sleep_interrupted \<Rightarrow> Inl KeyboardInterrupt,
                w\<lparr>sleeps := rs, trace := trace w @ [Sleep d]\<rparr>))"

subsection \<open>The two requests\<close>

text \<open>Lines 192-201. The text of the server's error message is not modelled.\<close>

fun status_response :: "snapshot http_reply \<Rightarrow> exn + snapshot" where
  "status_response Request_failed = Inl RequestException"
| "status_response Request_interrupted = Inl KeyboardInterrupt"
| "status_response (Response code body) =
     (if code = 200 then (case body of Some s \<Rightarrow> Inr s | None \<Rightarrow> Inl (ValueError Bad_json))
      else if code = 404 then Inl (ValueError Task_missing)
      else Inl HTTPError)"

definition get_task_status :: "task_id \<Rightarrow> world \<Rightarrow> ((exn + snapshot) \<times> world) option" where
  "get_task_status tid w =
     (case status_replies w of
        [] \<Rightarrow> None
      | r # rs \<Rightarrow>
          Some (status_response r,
                w\<lparr>status_replies := rs, trace := trace w @ [Get_status (status_response r)]\<rparr>))"

text \<open>Lines 216-227.\<close>

fun results_response :: "json http_reply \<Rightarrow> exn + json" where
  "results_response Request_failed = Inl RequestException"
| "results_response Request_interrupted = Inl KeyboardInterrupt"
| "results_response (Response code body) =
     (if code = 200 then (case body of Some p \<Rightarrow> Inr p | None \<Rightarrow> Inl (ValueError Bad_json))
      else if code = 404 then Inl (ValueError Result_missing)
      else if code = 409 then Inl (ValueError Not_completed)
      else Inl HTTPError)"

definition get_task_results :: "task_id \<Rightarrow> world \<Rightarrow> ((exn + json) \<times> world) option" where
  "get_task_results tid w =
     (case result_replies w of
        [] \<Rightarrow> None
      | r # rs \<Rightarrow>
          Some (results_response r,
                w\<lparr>result_replies := rs, trace := trace w @ [Get_results (results_response r)]\<rparr>))"

subsection \<open>Fetching results with retry (lines 229-278)\<close>

text \<open>Python's \<^verbatim>\<open>int(x)\<close> on a float truncates towards zero.\<close>

definition py_int :: "real \<Rightarrow> int" where
  "py_int x = (if 0 \<le> x then \<lfloor>x\<rfloor> else \<lceil>x\<rceil>)"

text \<open>Lines 259-264: the wait before the retry numbered \<open>retry_count\<close>.\<close>

definition retry_wait_time :: "int \<Rightarrow> int \<Rightarrow> int" where
  "retry_wait_time retry_count estimate_time =
     (if retry_count = 1 then max 5 (estimate_time div 2)
      else if retry_count = 2 then max 10 estimate_time
      else max 15 (py_int (of_int estimate_time * 1.5)))"

text \<open>The same waits as the specification writes them (section 4.1.1), for comparison with
  \<open>retry_wait_time\<close>: \<open>max(5, estimate/2)\<close>, \<open>max(10, estimate)\<close>,
  \<open>max(15, estimate*1.5)\<close>, read as arithmetic on real numbers.\<close>

definition spec_retry_wait :: "int \<Rightarrow> int \<Rightarrow> real" where
  "spec_retry_wait attempt e =
     (if attempt = 1 then max 5 (of_int e / 2)
      else if attempt = 2 then max 10 (of_int e)
      else max 15 (of_int e * 1.5))"

text \<open>Lines 269-271: \<^verbatim>\<open>for remaining in range(wait_time, 0, -1): time.sleep(1)\<close>.\<close>

fun countdown :: "nat \<Rightarrow> world \<Rightarrow> ((exn + unit) \<times> world) option" where
  "countdown 0 w = Some (Inr (), w)"
| "countdown (Suc n) w =
     (case time_sleep 1 w of
        None \<Rightarrow> None
      | Some (Inl e, w') \<Rightarrow> Some (Inl e, w')
      | Some (Inr u, w') \<Rightarrow> countdown n w')"

text \<open>The loop of lines 246-278 with \<open>retry_count\<close> as argument. When the loop condition
  fails the Python function falls off its end and returns \<^verbatim>\<open>None\<close>.\<close>

function retry_loop ::
  "task_id \<Rightarrow> int \<Rightarrow> int \<Rightarrow> int \<Rightarrow> world \<Rightarrow> ((exn + json option) \<times> world) option" where
  "retry_loop tid estimate_time maxr retry_count w =
     (if retry_count \<le> maxr then
        (case get_task_results tid w of
           None \<Rightarrow> None
         | Some (Inr results, w1) \<Rightarrow> Some (Inr (Some results), w1)
         | Some (Inl e, w1) \<Rightarrow>
             if is_ValueError e \<and> not_completed_in e then
               (if retry_count + 1 > maxr then Some (Inl e, w1)
                else
                  (case countdown (nat (retry_wait_time (retry_count + 1) estimate_time)) w1 of
                     None \<Rightarrow> None
                   | Some (Inl e', w2) \<Rightarrow> Some (Inl e', w2)
                   | Some (Inr u, w2) \<Rightarrow> retry_loop tid estimate_time maxr (retry_count + 1) w2))
             else Some (Inl e, w1))
      else Some (Inr None, w))"
  by pat_completeness auto
termination
  by (relation "measure (\<lambda>(tid, e, maxr, rc, w). nat (maxr + 1 - rc))") auto

declare retry_loop.simps [simp del]

definition get_task_results_with_retry ::
  "task_id \<Rightarrow> int \<Rightarrow> int \<Rightarrow> world \<Rightarrow> ((exn + json option) \<times> world) option" where
  "get_task_results_with_retry tid estimate_time maxr w = retry_loop tid estimate_time maxr 0 w"

subsection \<open>Waiting for completion (lines 280-466)\<close>

text \<open>The transient state of one wait: the counters of lines 297 and 298.\<close>

record session =
  check_count :: int
  error_count :: int

text \<open>How a part of the loop body ends: it goes on, returns from the function, or an
  exception is in flight.\<close>

datatype step = Continue | Return outcome | Raise exn

text \<open>Lines 410-433: the interval to sleep after a poll that did not end the wait.\<close>

definition next_interval :: "polling_config \<Rightarrow> int \<Rightarrow> real \<Rightarrow> int \<Rightarrow> real" where
  "next_interval cfg estimate_time elapsed checks =
     (if \<not> respect_estimate_time cfg then
        max (min_interval_seconds cfg) (min (custom_interval_seconds cfg) (max_interval_seconds cfg))
      else if estimate_time > 0 \<and> elapsed \<ge> of_int estimate_time then
        (let overtime = elapsed - of_int estimate_time
         in if overtime < 30 then 5 else if overtime < 120 then 10 else 15)
      else if estimate_time > 0 then max 5 (of_int estimate_time * 0.1)
      else if checks \<le> 3 then 5
      else if checks \<le> 10 then 10
      else 15)"

text \<open>Lines 316-325: the pre-wait of phase 1. It is outside every \<^verbatim>\<open>try\<close>.\<close>

function pre_wait :: "int \<Rightarrow> real \<Rightarrow> world \<Rightarrow> ((exn + unit) \<times> world) option" where
  "pre_wait estimate_time wait_start w =
     (case time_time w of
        None \<Rightarrow> None
      | Some (now, w1) \<Rightarrow>
          if now - wait_start \<ge> of_int estimate_time then Some (Inr (), w1)
          else
            (case time_sleep 1 w1 of
               None \<Rightarrow> None
             | Some (Inl e, w2) \<Rightarrow> Some (Inl e, w2)
             | Some (Inr u, w2) \<Rightarrow> pre_wait estimate_time wait_start w2))"
  by pat_completeness auto
termination
  by (relation "measure (\<lambda>(e, ws, w). length (clock w))")
     (auto simp: time_time_def time_sleep_def split: list.splits if_splits)

declare pre_wait.simps [simp del]

text \<open>Lines 409-444: choose the interval, sleep, then test the polling limit.\<close>

definition sleep_and_check ::
  "polling_config \<Rightarrow> int \<Rightarrow> real \<Rightarrow> snapshot \<Rightarrow> session \<Rightarrow> world
     \<Rightarrow> (step \<times> session \<times> world) option" where
  "sleep_and_check cfg estimate_time elapsed status_info s w =
     (case time_sleep (next_interval cfg estimate_time elapsed (check_count s)) w of
        None \<Rightarrow> None
      | Some (Inl e, w') \<Rightarrow> Some (Raise e, s, w')
      | Some (Inr u, w') \<Rightarrow>
          if limited_retry_strategy cfg \<and> check_count s \<ge> max_retries cfg then
            Some (Return (Polling_limit_reached
                            (status_info\<lparr>st_status := Some ''polling_limit_reached''\<rparr>)), s, w')
          else Some (Continue, s, w'))"

text \<open>Lines 375-400: a completed status without an embedded result.\<close>

definition confirm_completed ::
  "polling_config \<Rightarrow> task_id \<Rightarrow> int \<Rightarrow> real \<Rightarrow> snapshot \<Rightarrow> session \<Rightarrow> world
     \<Rightarrow> (step \<times> session \<times> world) option" where
  "confirm_completed cfg tid estimate_time elapsed status_info s w =
     (let final_status = status_info\<lparr>st_status := Some ''completed''\<rparr>
      in if check_count s \<le> 3 then
           (case get_task_results tid w of
              None \<Rightarrow> None
            | Some (Inr r, w') \<Rightarrow> Some (Return (Completed final_status), s, w')
            | Some (Inl e, w') \<Rightarrow>
                if is_ValueError e then
                  (if not_completed_in e
                   then sleep_and_check cfg estimate_time elapsed status_info s w'
                   else Some (Return (Completed final_status), s, w'))
                else if is_Exception e then Some (Return (Completed final_status), s, w')
                else Some (Raise e, s, w'))
         else Some (Return (Completed final_status), s, w))"

text \<open>Line 346: \<^verbatim>\<open>status_info.get('status', 'unknown')\<close>.\<close>

definition status_of :: "snapshot \<Rightarrow> string" where
  "status_of status_info = (case st_status status_info of None \<Rightarrow> ''unknown'' | Some x \<Rightarrow> x)"

text \<open>The format specification \<^verbatim>\<open>.0f\<close> of line 357 applied to a JSON value: it formats
  numbers and booleans, raises \<^verbatim>\<open>ValueError\<close> on a string and \<^verbatim>\<open>TypeError\<close> on
  \<^verbatim>\<open>None\<close>, lists and dictionaries.\<close>

fun format_f :: "json \<Rightarrow> exn option" where
  "format_f (JNum x) = None"
| "format_f (JBool b) = None"
| "format_f (JStr t) = Some (ValueError Bad_format)"
| "format_f JNull = Some TypeError"
| "format_f (JArray xs) = Some TypeError"
| "format_f (JObject kvs) = Some TypeError"

text \<open>Lines 353-359: the progress line; the result is the exception it raises, if any.
  Without the key \<^verbatim>\<open>estimate_time\<close> the value printed is the float
  \<^verbatim>\<open>max(0, estimate_time - elapsed)\<close>.\<close>

definition progress_line :: "int \<Rightarrow> string \<Rightarrow> snapshot \<Rightarrow> exn option" where
  "progress_line estimate_time status status_info =
     (if estimate_time > 0 \<and> status = ''running'' then
        (case st_estimate_time status_info of None \<Rightarrow> None | Some v \<Rightarrow> format_f v)
      else None)"

text \<open>Lines 364-372: a completed status with a truthy embedded result. The assignment
  \<^verbatim>\<open>result_data['status'] = 'completed'\<close> of line 368 raises \<^verbatim>\<open>TypeError\<close> unless the
  result is a dictionary.\<close>

fun embedded_result :: "json \<Rightarrow> step" where
  "embedded_result (JObject kvs) = Return (Completed_with_result kvs)"
| "embedded_result _ = Raise TypeError"

text \<open>Lines 345-444: the body of the \<^verbatim>\<open>try\<close>.\<close>

definition try_body ::
  "polling_config \<Rightarrow> task_id \<Rightarrow> int \<Rightarrow> real \<Rightarrow> session \<Rightarrow> world
     \<Rightarrow> (step \<times> session \<times> world) option" where
  "try_body cfg tid estimate_time elapsed s w =
     (case get_task_status tid w of
        None \<Rightarrow> None
      | Some (Inl e, w1) \<Rightarrow> Some (Raise e, s, w1)
      | Some (Inr status_info, w1) \<Rightarrow>
          (let status = status_of status_info;
               s1 = s\<lparr>check_count := check_count s + 1, error_count := 0\<rparr>
           in case progress_line estimate_time status status_info of
                Some ex \<Rightarrow> Some (Raise ex, s1, w1)
              | None \<Rightarrow>
                  if status = ''completed'' then
                    (case st_result status_info of
                       None \<Rightarrow> confirm_completed cfg tid estimate_time elapsed status_info s1 w1
                     | Some r \<Rightarrow>
                         if truthy r then Some (embedded_result r, s1, w1)
                         else confirm_completed cfg tid estimate_time elapsed status_info s1 w1)
                  else if status \<in> set [''failed'', ''error'', ''cancelled''] then
                    Some (Return (Failed (status_info\<lparr>st_status := Some status\<rparr>)), s1, w1)
                  else sleep_and_check cfg estimate_time elapsed status_info s1 w1))"

text \<open>Lines 446-466: the two handlers of the \<^verbatim>\<open>try\<close>. The sleep of line 461 is inside
  the second handler, so an interrupt there is not caught by the first.\<close>

definition on_exception ::
  "polling_config \<Rightarrow> task_id \<Rightarrow> exn \<Rightarrow> session \<Rightarrow> world \<Rightarrow> (step \<times> session \<times> world) option" where
  "on_exception cfg tid e s w =
     (if \<not> is_Exception e then Some (Return (Interrupted tid), s, w)
      else if \<not> retry_on_error cfg then Some (Raise e, s, w)
      else
        (let s' = s\<lparr>error_count := error_count s + 1\<rparr>
         in if error_count s' \<le> 3 then
              (case time_sleep 5 w of
                 None \<Rightarrow> None
               | Some (Inl e', w') \<Rightarrow> Some (Raise e', s', w')
               | Some (Inr u, w') \<Rightarrow> Some (Continue, s', w'))
            else Some (Raise e, s', w)))"

text \<open>Lines 338-466: one iteration of the poll loop.\<close>

definition poll_step ::
  "polling_config \<Rightarrow> task_id \<Rightarrow> int \<Rightarrow> int \<Rightarrow> real \<Rightarrow> session \<Rightarrow> world
     \<Rightarrow> (step \<times> session \<times> world) option" where
  "poll_step cfg tid estimate_time max_wait start_time s w =
     (case time_time w of
        None \<Rightarrow> None
      | Some (now, w0) \<Rightarrow>
          (let elapsed = now - start_time
           in if elapsed > of_int max_wait then Some (Raise TimeoutError, s, w0)
              else
                (case try_body cfg tid estimate_time elapsed s w0 of
                   None \<Rightarrow> None
                 | Some (Raise e, s1, w1) \<Rightarrow> on_exception cfg tid e s1 w1
                 | Some (Continue, s1, w1) \<Rightarrow> Some (Continue, s1, w1)
                 | Some (Return r, s1, w1) \<Rightarrow> Some (Return r, s1, w1))))"

lemma time_sleep_clock: "time_sleep d w = Some (r, w') \<Longrightarrow> clock w' = clock w"
  by (auto simp: time_sleep_def split: list.splits if_splits)

lemma get_task_status_clock: "get_task_status tid w = Some (r, w') \<Longrightarrow> clock w' = clock w"
  by (auto simp: get_task_status_def split: list.splits)

lemma get_task_results_clock: "get_task_results tid w = Some (r, w') \<Longrightarrow> clock w' = clock w"
  by (auto simp: get_task_results_def split: list.splits)

lemma sleep_and_check_clock:
  "sleep_and_check cfg e el info s w = Some (r, s', w') \<Longrightarrow> clock w' = clock w"
  by (auto simp: sleep_and_check_def split: option.splits sum.splits if_splits
           dest: time_sleep_clock)

lemma confirm_completed_clock:
  "confirm_completed cfg tid e el info s w = Some (r, s', w') \<Longrightarrow> clock w' = clock w"
  by (auto simp: confirm_completed_def Let_def split: option.splits sum.splits if_splits
           dest!: get_task_results_clock sleep_and_check_clock)

lemma try_body_clock:
  "try_body cfg tid e el s w = Some (r, s', w') \<Longrightarrow> clock w' = clock w"
  unfolding try_body_def Let_def
  by (auto split: option.splits sum.splits if_splits
           dest!: get_task_status_clock confirm_completed_clock sleep_and_check_clock)

lemma on_exception_clock:
  "on_exception cfg tid e s w = Some (r, s', w') \<Longrightarrow> clock w' = clock w"
  by (auto simp: on_exception_def Let_def split: option.splits sum.splits if_splits
           dest: time_sleep_clock)

lemma time_time_clock: "time_time w = Some (t, w') \<Longrightarrow> clock w = t # clock w'"
  by (auto simp: time_time_def split: list.splits)

lemma poll_step_clock:
  "poll_step cfg tid e mw st s w = Some (r, s', w') \<Longrightarrow> length (clock w') < length (clock w)"
  unfolding poll_step_def Let_def
  by (auto split: option.splits if_splits step.splits
           dest!: time_time_clock try_body_clock on_exception_clock)

text \<open>The \<^verbatim>\<open>while True\<close> of line 337.\<close>

function poll_loop ::
  "polling_config \<Rightarrow> task_id \<Rightarrow> int \<Rightarrow> int \<Rightarrow> real \<Rightarrow> session \<Rightarrow> world
     \<Rightarrow> ((exn + outcome) \<times> session \<times> world) option" where
  "poll_loop cfg tid estimate_time max_wait start_time s w =
     (case poll_step cfg tid estimate_time max_wait start_time s w of
        None \<Rightarrow> None
      | Some (Continue, s', w') \<Rightarrow> poll_loop cfg tid estimate_time max_wait start_time s' w'
      | Some (Return r, s', w') \<Rightarrow> Some (Inr r, s', w')
      | Some (Raise e, s', w') \<Rightarrow> Some (Inl e, s', w'))"
  by pat_completeness auto
termination
  by (relation "measure (\<lambda>(cfg, tid, e, mw, st, s, w). length (clock w))")
     (auto dest: poll_step_clock)

declare poll_loop.simps [simp del]

text \<open>Lines 296-466. The counters are local and are dropped on return.\<close>

definition wait_for_completion ::
  "polling_config \<Rightarrow> task_id \<Rightarrow> int \<Rightarrow> int \<Rightarrow> world \<Rightarrow> ((exn + outcome) \<times> world) option" where
  "wait_for_completion cfg tid estimate_time max_wait w =
     (case time_time w of
        None \<Rightarrow> None
      | Some (start_time, w0) \<Rightarrow>
          (let s0 = \<lparr>check_count = 0, error_count = 0\<rparr>;
               loop = (\<lambda>w'. map_option (\<lambda>(r, s, w''). (r, w''))
                               (poll_loop cfg tid estimate_time max_wait start_time s0 w'))
           in if estimate_time > 0 \<and> respect_estimate_time cfg then
                (case time_time w0 of
                   None \<Rightarrow> None
                 | Some (wait_start, w1) \<Rightarrow>
                     (case pre_wait estimate_time wait_start w1 of
                        None \<Rightarrow> None
                      | Some (Inl e, w2) \<Rightarrow> Some (Inl e, w2)
                      | Some (Inr u, w2) \<Rightarrow> loop w2))
              else loop w0))"

subsection \<open>Observations on traces\<close>

text \<open>A status poll is a status fetch that returns a snapshot: these are the fetches that
  \<open>check_count\<close> counts (line 347).\<close>

fun is_poll :: "action \<Rightarrow> bool" where
  "is_poll (Get_status (Inr info)) = True"
| "is_poll _ = False"

definition status_polls :: "action list \<Rightarrow> nat" where
  "status_polls tr = length (filter is_poll tr)"

text \<open>What the pre-wait of phase 1 does: it reads the clock and sleeps one second.\<close>

fun is_wait_action :: "action \<Rightarrow> bool" where
  "is_wait_action (Clock t) = True"
| "is_wait_action (Sleep d) = (d = 1)"
| "is_wait_action _ = False"

text \<open>The trace only grows.\<close>

definition extends :: "world \<Rightarrow> world \<Rightarrow> bool" where
  "extends w w' \<longleftrightarrow> (\<exists>tr. trace w' = trace w @ tr)"

section \<open>Properties\<close>

subsection \<open>Fetching results with retry\<close>

text \<open>The waits of the code are the waits of the specification rounded down to whole
  seconds.\<close>

lemma retry_wait_time_floor: "retry_wait_time k e = \<lfloor>spec_retry_wait k e\<rfloor>"
proof -
  have a: "max 5 (e div 2) = \<lfloor>max (5::real) (of_int e / 2)\<rfloor>"
    by (simp add: max_def floor_divide_of_int_eq le_floor_iff) linarith
  have b: "max 10 e = \<lfloor>max (10::real) (of_int e)\<rfloor>"
    by (simp add: max_def)
  have c: "max 15 (py_int (of_int e * 1.5)) = \<lfloor>max (15::real) (of_int e * 1.5)\<rfloor>"
  proof (cases "0 \<le> e")
    case True
    then show ?thesis by (simp add: py_int_def max_def le_floor_iff)
  next
    case False
    then have "\<lceil>real_of_int e * 1.5\<rceil> \<le> 0" by (simp add: ceiling_le_iff)
    with False show ?thesis by (simp add: py_int_def max_def)
  qed
  show ?thesis
    unfolding retry_wait_time_def spec_retry_wait_def using a b c by simp
qed

lemma countdown_slept:
  "sleeps w = replicate n Slept @ ss \<Longrightarrow>
   countdown n w = Some (Inr (), w\<lparr>sleeps := ss, trace := trace w @ replicate n (Sleep 1)\<rparr>)"
proof (induction n arbitrary: w)
  case 0
  then show ?case by simp
next
  case (Suc n)
  then show ?case
    by (simp add: time_sleep_def replicate_append_same)
qed


lemma retry_loop_not_ready:
  assumes "rc + 1 \<le> maxr"
    and "result_replies w = Response 409 b # rs"
    and "sleeps w = replicate (nat (retry_wait_time (rc + 1) e)) Slept @ ss"
  shows "retry_loop tid e maxr rc w =
           retry_loop tid e maxr (rc + 1)
             (w\<lparr>sleeps := ss, result_replies := rs,
                trace := trace w @ Get_results (Inl (ValueError Not_completed))
                           # replicate (nat (retry_wait_time (rc + 1) e)) (Sleep 1)\<rparr>)"
proof -
  let ?w1 = "w\<lparr>result_replies := rs,
                 trace := trace w @ [Get_results (Inl (ValueError Not_completed))]\<rparr>"
  have g: "get_task_results tid w = Some (Inl (ValueError Not_completed), ?w1)"
    using assms(2) by (simp add: get_task_results_def)
  have "sleeps ?w1 = replicate (nat (retry_wait_time (rc + 1) e)) Slept @ ss"
    using assms(3) by simp
  from countdown_slept [OF this]
  have c: "countdown (nat (retry_wait_time (rc + 1) e)) ?w1 =
             Some (Inr (), w\<lparr>sleeps := ss, result_replies := rs,
                trace := trace w @ Get_results (Inl (ValueError Not_completed))
                           # replicate (nat (retry_wait_time (rc + 1) e)) (Sleep 1)\<rparr>)"
    by simp
  show ?thesis
    using assms(1) by (subst retry_loop.simps) (simp add: g c)
qed

lemma retry_loop_exhausted:
  assumes "result_replies w = Response 409 b # rs"
  shows "retry_loop tid e maxr maxr w =
           Some (Inl (ValueError Not_completed),
                 w\<lparr>result_replies := rs,
                   trace := trace w @ [Get_results (Inl (ValueError Not_completed))]\<rparr>)"
  using assms by (subst retry_loop.simps) (simp add: get_task_results_def)

text \<open>
  Claim C5, as amended. The wait before retry \<open>k\<close> is the value the specification gives
  (\<open>max(5, e/2)\<close>, \<open>max(10, e)\<close>, \<open>max(15, 1.5 e)\<close>) rounded down to a whole number of
  seconds, and it is slept as that many sleeps of one second. With at most 3 retries, when the
  results endpoint answers 409 four times and no sleep is interrupted, the helper fetches four
  times, waits three times and raises the \<^verbatim>\<open>ValueError\<close> of the fourth answer.
\<close>

theorem C5_retry_schedule:
  assumes "result_replies w = [Response 409 b1, Response 409 b2, Response 409 b3, Response 409 b4] @ rs"
    and "sleeps w = replicate (nat \<lfloor>spec_retry_wait 1 e\<rfloor> + nat \<lfloor>spec_retry_wait 2 e\<rfloor>
                                 + nat \<lfloor>spec_retry_wait 3 e\<rfloor>) Slept @ ss"
  shows "(\<forall>k. retry_wait_time k e = \<lfloor>spec_retry_wait k e\<rfloor>) \<and>
         get_task_results_with_retry tid e 3 w =
           Some (Inl (ValueError Not_completed),
                 w\<lparr>sleeps := ss, result_replies := rs,
                   trace := trace w
                     @ Get_results (Inl (ValueError Not_completed))
                       # replicate (nat \<lfloor>spec_retry_wait 1 e\<rfloor>) (Sleep 1)
                     @ Get_results (Inl (ValueError Not_completed))
                       # replicate (nat \<lfloor>spec_retry_wait 2 e\<rfloor>) (Sleep 1)
                     @ Get_results (Inl (ValueError Not_completed))
                       # replicate (nat \<lfloor>spec_retry_wait 3 e\<rfloor>) (Sleep 1)
                     @ [Get_results (Inl (ValueError Not_completed))]\<rparr>)"
proof -
  let ?n1 = "nat (retry_wait_time 1 e)" and ?n2 = "nat (retry_wait_time 2 e)"
    and ?n3 = "nat (retry_wait_time 3 e)"
  let ?G = "Get_results (Inl (ValueError Not_completed))"
  have fl: "\<And>k. retry_wait_time k e = \<lfloor>spec_retry_wait k e\<rfloor>"
    by (rule retry_wait_time_floor)
  have sl: "sleeps w = replicate ?n1 Slept @ replicate ?n2 Slept @ replicate ?n3 Slept @ ss"
    using assms(2) by (simp add: fl replicate_add)
  let ?w1 = "w\<lparr>sleeps := replicate ?n2 Slept @ replicate ?n3 Slept @ ss,
                 result_replies := [Response 409 b2, Response 409 b3, Response 409 b4] @ rs,
                 trace := trace w @ ?G # replicate ?n1 (Sleep 1)\<rparr>"
  let ?w2 = "?w1\<lparr>sleeps := replicate ?n3 Slept @ ss,
                 result_replies := [Response 409 b3, Response 409 b4] @ rs,
                 trace := trace ?w1 @ ?G # replicate ?n2 (Sleep 1)\<rparr>"
  let ?w3 = "?w2\<lparr>sleeps := ss,
                 result_replies := [Response 409 b4] @ rs,
                 trace := trace ?w2 @ ?G # replicate ?n3 (Sleep 1)\<rparr>"
  have s1: "retry_loop tid e 3 0 w = retry_loop tid e 3 1 ?w1"
    using retry_loop_not_ready [of 0 3 w b1 "[Response 409 b2, Response 409 b3, Response 409 b4] @ rs" e
        "replicate ?n2 Slept @ replicate ?n3 Slept @ ss" tid] assms(1) sl
    by simp
  have s2: "retry_loop tid e 3 1 ?w1 = retry_loop tid e 3 2 ?w2"
    using retry_loop_not_ready [of 1 3 ?w1 b2 "[Response 409 b3, Response 409 b4] @ rs" e
        "replicate ?n3 Slept @ ss" tid]
    by simp
  have s3: "retry_loop tid e 3 2 ?w2 = retry_loop tid e 3 3 ?w3"
    using retry_loop_not_ready [of 2 3 ?w2 b3 "[Response 409 b4] @ rs" e ss tid]
    by simp
  have s4: "retry_loop tid e 3 3 ?w3 =
              Some (Inl (ValueError Not_completed),
                    ?w3\<lparr>result_replies := rs, trace := trace ?w3 @ [?G]\<rparr>)"
    using retry_loop_exhausted [of ?w3 b4 rs tid e 3] by simp
  have "get_task_results_with_retry tid e 3 w =
          Some (Inl (ValueError Not_completed),
                ?w3\<lparr>result_replies := rs, trace := trace ?w3 @ [?G]\<rparr>)"
    unfolding get_task_results_with_retry_def using s1 s2 s3 s4 by simp
  then show ?thesis
    using fl by simp
qed

theorem C5_retry_schedule_witness:
  "get_task_results_with_retry ''t1'' 20 3
     \<lparr>clock = [], sleeps = replicate 60 Slept, status_replies = [],
      result_replies = replicate 4 (Response 409 None), trace = []\<rparr> =
   Some (Inl (ValueError Not_completed),
         \<lparr>clock = [], sleeps = [], status_replies = [], result_replies = [],
          trace = Get_results (Inl (ValueError Not_completed)) # replicate 10 (Sleep 1)
                @ Get_results (Inl (ValueError Not_completed)) # replicate 20 (Sleep 1)
                @ Get_results (Inl (ValueError Not_completed)) # replicate 30 (Sleep 1)
                @ [Get_results (Inl (ValueError Not_completed))]\<rparr>)
   \<and> retry_wait_time 1 20 = 10 \<and> retry_wait_time 2 20 = 20 \<and> retry_wait_time 3 20 = 30"
proof -
  have f: "\<lfloor>spec_retry_wait 1 20\<rfloor> = 10" "\<lfloor>spec_retry_wait 2 20\<rfloor> = 20"
    "\<lfloor>spec_retry_wait 3 20\<rfloor> = 30"
    by (simp_all add: spec_retry_wait_def)
  show ?thesis
    using C5_retry_schedule [of "\<lparr>clock = [], sleeps = replicate 60 Slept, status_replies = [],
      result_replies = replicate 4 (Response 409 None), trace = []\<rparr>" None None None None "[]" 20 "[]" "''t1''"]
    by (simp add: f numeral_eq_Suc)
qed

text \<open>For \<open>e = 11\<close> the code waits 5 and 16 seconds before retries 1 and 3, where the
  formulas of the specification give 5.5 and 16.5.\<close>

theorem C5_counterexample:
  "real_of_int (retry_wait_time 1 11) \<noteq> spec_retry_wait 1 11 \<and>
   real_of_int (retry_wait_time 3 11) \<noteq> spec_retry_wait 3 11"
  by (simp add: retry_wait_time_def spec_retry_wait_def py_int_def)

subsection \<open>One iteration of the poll loop\<close>

lemma poll_step_timeout:
  assumes "clock w = now # ts" and "now - st > of_int mw"
  shows "poll_step cfg tid e mw st s w =
           Some (Raise TimeoutError, s, w\<lparr>clock := ts, trace := trace w @ [Clock now]\<rparr>)"
  using assms by (simp add: poll_step_def time_time_def)

lemma poll_step_status_error:
  assumes "clock w = now # ts" and "now - st \<le> of_int mw"
    and "status_replies w = rep # rest" and "status_response rep = Inl ex"
  shows "poll_step cfg tid e mw st s w =
           on_exception cfg tid ex s
             (w\<lparr>clock := ts, status_replies := rest,
                trace := trace w @ [Clock now, Get_status (Inl ex)]\<rparr>)"
  using assms by (simp add: poll_step_def time_time_def try_body_def get_task_status_def)

lemma on_exception_retry:
  assumes "is_Exception ex" and "retry_on_error cfg" and "error_count s < 3"
    and "sleeps w = Slept # ss"
  shows "on_exception cfg tid ex s w =
           Some (Continue, s\<lparr>error_count := error_count s + 1\<rparr>,
                 w\<lparr>sleeps := ss, trace := trace w @ [Sleep 5]\<rparr>)"
  using assms by (simp add: on_exception_def time_sleep_def)

lemma on_exception_fatal:
  assumes "is_Exception ex" and "retry_on_error cfg" and "3 \<le> error_count s"
  shows "on_exception cfg tid ex s w = Some (Raise ex, s\<lparr>error_count := error_count s + 1\<rparr>, w)"
  using assms by (simp add: on_exception_def)

lemma on_exception_no_retry:
  assumes "is_Exception ex" and "\<not> retry_on_error cfg"
  shows "on_exception cfg tid ex s w = Some (Raise ex, s, w)"
  using assms by (simp add: on_exception_def)

lemma on_exception_check_count:
  "on_exception cfg tid ex s w = Some (r, s', w') \<Longrightarrow> check_count s' = check_count s"
  by (auto simp: on_exception_def Let_def split: if_splits option.splits sum.splits)

lemma poll_loop_continue:
  "poll_step cfg tid e mw st s w = Some (Continue, s', w') \<Longrightarrow>
   poll_loop cfg tid e mw st s w = poll_loop cfg tid e mw st s' w'"
  by (subst poll_loop.simps) simp

lemma poll_loop_raise:
  "poll_step cfg tid e mw st s w = Some (Raise ex, s', w') \<Longrightarrow>
   poll_loop cfg tid e mw st s w = Some (Inl ex, s', w')"
  by (subst poll_loop.simps) simp

lemma poll_loop_return:
  "poll_step cfg tid e mw st s w = Some (Return r, s', w') \<Longrightarrow>
   poll_loop cfg tid e mw st s w = Some (Inr r, s', w')"
  by (subst poll_loop.simps) simp

lemma sleep_and_check_counters:
  "sleep_and_check cfg e el info s w = Some (r, s', w') \<Longrightarrow> s' = s"
  by (auto simp: sleep_and_check_def split: option.splits sum.splits if_splits)

lemma confirm_completed_counters:
  "confirm_completed cfg tid e el info s w = Some (r, s', w') \<Longrightarrow> s' = s"
  by (auto simp: confirm_completed_def Let_def split: option.splits sum.splits if_splits
           dest!: sleep_and_check_counters)

lemma try_body_success_counters:
  assumes "status_replies w = rep # rest" and "status_response rep = Inr info"
    and "try_body cfg tid e el s w = Some (r, s', w')"
  shows "s' = s\<lparr>check_count := check_count s + 1, error_count := 0\<rparr>"
  using assms unfolding try_body_def Let_def get_task_status_def
  by (auto split: option.splits if_splits
           dest!: sleep_and_check_counters confirm_completed_counters)

lemma try_body_failure:
  assumes "status_replies w = rep # rest" and "status_response rep = Inl ex"
  shows "try_body cfg tid e el s w =
           Some (Raise ex, s, w\<lparr>status_replies := rest, trace := trace w @ [Get_status (Inl ex)]\<rparr>)"
  using assms by (simp add: try_body_def get_task_status_def)





subsection \<open>Failures of the status fetch\<close>




text \<open>With the default policy (\<open>retry_on_error\<close> true) a 404 on the first status fetch is
  followed by a sleep of 5 seconds and a second fetch; here the second fetch finds the task
  completed and the wait returns its result.\<close>

theorem C1_counterexample:
  "wait_for_completion default_config ''t1'' 0 1800
     \<lparr>clock = [0, 1, 7], sleeps = [Slept],
      status_replies = [Response 404 None,
        Response 200 (Some \<lparr>st_status = Some ''completed'', st_estimate_time = None,
                             st_message = None, st_result = Some (JObject [(''groups'', JNum 3)])\<rparr>)],
      result_replies = [], trace = []\<rparr> =
   Some (Inr (Completed_with_result [(''groups'', JNum 3)]),
     \<lparr>clock = [], sleeps = [], status_replies = [], result_replies = [],
      trace = [Clock 0, Clock 1, Get_status (Inl (ValueError Task_missing)), Sleep 5, Clock 7,
               Get_status (Inr \<lparr>st_status = Some ''completed'', st_estimate_time = None,
                                 st_message = None, st_result = Some (JObject [(''groups'', JNum 3)])\<rparr>)]\<rparr>)"
  by (simp add: poll_loop.simps pre_wait.simps wait_for_completion_def default_config_def time_time_def time_sleep_def
        get_task_status_def poll_step_def try_body_def progress_line_def on_exception_def status_of_def)

text \<open>
  Claim C1, as amended. In the poll loop a 404 from the status endpoint (unknown task
  identifier) is handled like every other failure of the status fetch. It is raised at once
  only when \<open>retry_on_error\<close> is false; with \<open>retry_on_error\<close> it is retried after a sleep of
  5 seconds while fewer than three consecutive failures came before it, and raised otherwise.
\<close>

theorem C1_not_found_like_any_failure:
  assumes "clock w = now # ts" and "now - st \<le> of_int mw"
    and "status_replies w = Response 404 body # rest"
    and "sleeps w = Slept # ss"
  shows "poll_step cfg tid e mw st s w =
           (if \<not> retry_on_error cfg then
              Some (Raise (ValueError Task_missing), s,
                    w\<lparr>clock := ts, status_replies := rest,
                      trace := trace w @ [Clock now, Get_status (Inl (ValueError Task_missing))]\<rparr>)
            else if error_count s < 3 then
              Some (Continue, s\<lparr>error_count := error_count s + 1\<rparr>,
                    w\<lparr>clock := ts, sleeps := ss, status_replies := rest,
                      trace := trace w @ [Clock now, Get_status (Inl (ValueError Task_missing)),
                                          Sleep 5]\<rparr>)
            else
              Some (Raise (ValueError Task_missing), s\<lparr>error_count := error_count s + 1\<rparr>,
                    w\<lparr>clock := ts, status_replies := rest,
                      trace := trace w @ [Clock now, Get_status (Inl (ValueError Task_missing))]\<rparr>))"
proof -
  have "status_response (Response 404 body) = Inl (ValueError Task_missing)" by simp
  from poll_step_status_error [OF assms(1,2,3) this]
  show ?thesis
    using assms(4)
    by (simp add: on_exception_retry on_exception_fatal on_exception_no_retry)
qed

theorem C1_not_found_like_any_failure_witness:
  "poll_step default_config ''t1'' 0 1800 0 \<lparr>check_count = 0, error_count = 0\<rparr>
     \<lparr>clock = [1], sleeps = [Slept], status_replies = [Response 404 None],
      result_replies = [], trace = []\<rparr> =
   Some (Continue, \<lparr>check_count = 0, error_count = 1\<rparr>,
     \<lparr>clock = [], sleeps = [], status_replies = [], result_replies = [],
      trace = [Clock 1, Get_status (Inl (ValueError Task_missing)), Sleep 5]\<rparr>)"
  using C1_not_found_like_any_failure [of
      "\<lparr>clock = [1], sleeps = [Slept], status_replies = [Response 404 None],
      result_replies = [], trace = []\<rparr>" 1 "[]" 0 1800 None "[]" "[]" default_config "''t1''" 0
      "\<lparr>check_count = 0, error_count = 0\<rparr>"]
  by (simp add: default_config_def)

text \<open>
  Claim C10. In an iteration that starts with the clock reading \<open>now\<close>:
  when more than \<open>max_wait\<close> has elapsed the loop raises \<^verbatim>\<open>TimeoutError\<close> before any
  fetch, whatever the counters are; a failed status fetch leaves the poll count as it was;
  a successful one adds one to it; and when an error retry is followed by a clock reading
  beyond \<open>max_wait\<close>, the next iteration raises \<^verbatim>\<open>TimeoutError\<close>.
\<close>

theorem C10_failed_fetch_not_counted:
  assumes "clock w = now # ts"
  shows "(now - st > of_int mw \<longrightarrow>
            poll_loop cfg tid e mw st s w =
              Some (Inl TimeoutError, s, w\<lparr>clock := ts, trace := trace w @ [Clock now]\<rparr>))
       \<and> (\<forall>rep rest ex r s' w'.
            status_replies w = rep # rest \<and> status_response rep = Inl ex \<and>
            poll_step cfg tid e mw st s w = Some (r, s', w') \<longrightarrow> check_count s' = check_count s)
       \<and> (\<forall>rep rest info r s' w'.
            now - st \<le> of_int mw \<and>
            status_replies w = rep # rest \<and> status_response rep = Inr info \<and>
            poll_step cfg tid e mw st s w = Some (r, s', w') \<longrightarrow> check_count s' = check_count s + 1)
       \<and> (\<forall>rep rest ex t2 ts2 ss.
            now - st \<le> of_int mw \<and> ts = t2 # ts2 \<and> t2 - st > of_int mw \<and>
            retry_on_error cfg \<and> error_count s < 3 \<and> sleeps w = Slept # ss \<and>
            status_replies w = rep # rest \<and> status_response rep = Inl ex \<and> is_Exception ex \<longrightarrow>
            poll_loop cfg tid e mw st s w =
              Some (Inl TimeoutError, s\<lparr>error_count := error_count s + 1\<rparr>,
                    w\<lparr>clock := ts2, sleeps := ss, status_replies := rest,
                      trace := trace w @ [Clock now, Get_status (Inl ex), Sleep 5, Clock t2]\<rparr>))"
proof (intro conjI allI impI)
  assume "now - st > of_int mw"
  from poll_step_timeout [OF assms this]
  show "poll_loop cfg tid e mw st s w =
          Some (Inl TimeoutError, s, w\<lparr>clock := ts, trace := trace w @ [Clock now]\<rparr>)"
    by (rule poll_loop_raise)
next
  fix rep rest ex r s' w'
  assume a: "status_replies w = rep # rest \<and> status_response rep = Inl ex \<and>
             poll_step cfg tid e mw st s w = Some (r, s', w')"
  show "check_count s' = check_count s"
  proof (cases "now - st > of_int mw")
    case True
    from poll_step_timeout [OF assms True] a show ?thesis by simp
  next
    case False
    then have "now - st \<le> of_int mw" by simp
    from poll_step_status_error [OF assms this] a
    show ?thesis by (auto dest: on_exception_check_count)
  qed
next
  fix rep rest info r s' w'
  assume a: "now - st \<le> of_int mw \<and>
            status_replies w = rep # rest \<and> status_response rep = Inr info \<and>
            poll_step cfg tid e mw st s w = Some (r, s', w')"
  let ?w0 = "w\<lparr>clock := ts, trace := trace w @ [Clock now]\<rparr>"
  have sr: "status_replies ?w0 = rep # rest" using a by simp
  from a assms obtain r1 s1 w1 where
    t: "try_body cfg tid e (now - st) s ?w0 = Some (r1, s1, w1)"
    and p: "(case r1 of Raise ex \<Rightarrow> on_exception cfg tid ex s1 w1 | _ \<Rightarrow> Some (r1, s1, w1))
              = Some (r, s', w')"
    by (auto simp: poll_step_def time_time_def split: option.splits step.splits)
  from try_body_success_counters [OF sr _ t] a
  have s1: "check_count s1 = check_count s + 1" by simp
  from p have "check_count s' = check_count s1"
    by (cases r1) (auto dest: on_exception_check_count)
  with s1 show "check_count s' = check_count s + 1" by simp
next
  fix rep rest ex t2 ts2 ss
  assume a: "now - st \<le> of_int mw \<and> ts = t2 # ts2 \<and> t2 - st > of_int mw \<and>
            retry_on_error cfg \<and> error_count s < 3 \<and> sleeps w = Slept # ss \<and>
            status_replies w = rep # rest \<and> status_response rep = Inl ex \<and> is_Exception ex"
  let ?s1 = "s\<lparr>error_count := error_count s + 1\<rparr>"
  let ?w1 = "w\<lparr>clock := ts, sleeps := ss, status_replies := rest,
                trace := trace w @ [Clock now, Get_status (Inl ex), Sleep 5]\<rparr>"
  have p1: "poll_step cfg tid e mw st s w = Some (Continue, ?s1, ?w1)"
    using a assms by (simp add: poll_step_status_error [where ex = ex] on_exception_retry)
  have "clock ?w1 = t2 # ts2" using a by simp
  from poll_step_timeout [OF this, of mw st cfg tid e ?s1] a
  have p2: "poll_step cfg tid e mw st ?s1 ?w1 =
              Some (Raise TimeoutError, ?s1,
                    w\<lparr>clock := ts2, sleeps := ss, status_replies := rest,
                      trace := trace w @ [Clock now, Get_status (Inl ex), Sleep 5, Clock t2]\<rparr>)"
    by simp
  show "poll_loop cfg tid e mw st s w =
              Some (Inl TimeoutError, s\<lparr>error_count := error_count s + 1\<rparr>,
                    w\<lparr>clock := ts2, sleeps := ss, status_replies := rest,
                      trace := trace w @ [Clock now, Get_status (Inl ex), Sleep 5, Clock t2]\<rparr>)"
    using poll_loop_continue [OF p1] poll_loop_raise [OF p2] by simp
qed

theorem C10_failed_fetch_not_counted_witness:
  "poll_loop default_config ''t1'' 0 1800 0 \<lparr>check_count = 2, error_count = 1\<rparr>
     \<lparr>clock = [1799, 1804], sleeps = [Slept], status_replies = [Request_failed],
      result_replies = [], trace = []\<rparr> =
   Some (Inl TimeoutError, \<lparr>check_count = 2, error_count = 2\<rparr>,
     \<lparr>clock = [], sleeps = [], status_replies = [], result_replies = [],
      trace = [Clock 1799, Get_status (Inl RequestException), Sleep 5, Clock 1804]\<rparr>)"
  using C10_failed_fetch_not_counted [where w =
      "\<lparr>clock = [1799, 1804], sleeps = [Slept], status_replies = [Request_failed],
      result_replies = [], trace = []\<rparr>" and now = 1799 and ts = "[1804]" and st = 0
      and mw = 1800 and cfg = default_config and tid = "''t1''" and e = 0
      and s = "\<lparr>check_count = 2, error_count = 1\<rparr>"]
  by (simp add: default_config_def)

subsection \<open>A completed status without an embedded result\<close>





subsection \<open>Repeated snapshots and the polling limit\<close>

text \<open>A successful status fetch that returns the same running snapshot as the one before
  moves the poll count from 1 to 2; with the default policy three identical running
  snapshots end the wait with \<^verbatim>\<open>polling_limit_reached\<close>.\<close>

theorem C3_counterexample:
  "poll_step default_config ''t1'' 0 1800 0 \<lparr>check_count = 1, error_count = 0\<rparr>
     \<lparr>clock = [7], sleeps = [Slept],
      status_replies = [Response 200 (Some \<lparr>st_status = Some ''running'',
         st_estimate_time = None, st_message = None, st_result = None\<rparr>)],
      result_replies = [], trace = []\<rparr> =
   Some (Continue, \<lparr>check_count = 2, error_count = 0\<rparr>,
     \<lparr>clock = [], sleeps = [], status_replies = [], result_replies = [],
      trace = [Clock 7, Get_status (Inr \<lparr>st_status = Some ''running'',
         st_estimate_time = None, st_message = None, st_result = None\<rparr>), Sleep 5]\<rparr>)
   \<and>
   wait_for_completion default_config ''t1'' 0 1800
     \<lparr>clock = [0, 1, 7, 13], sleeps = [Slept, Slept, Slept],
      status_replies = replicate 3 (Response 200 (Some \<lparr>st_status = Some ''running'',
         st_estimate_time = None, st_message = None, st_result = None\<rparr>)),
      result_replies = [], trace = []\<rparr> =
   Some (Inr (Polling_limit_reached \<lparr>st_status = Some ''polling_limit_reached'',
            st_estimate_time = None, st_message = None, st_result = None\<rparr>),
     \<lparr>clock = [], sleeps = [], status_replies = [], result_replies = [],
      trace = [Clock 0,
         Clock 1, Get_status (Inr \<lparr>st_status = Some ''running'',
           st_estimate_time = None, st_message = None, st_result = None\<rparr>), Sleep 5,
         Clock 7, Get_status (Inr \<lparr>st_status = Some ''running'',
           st_estimate_time = None, st_message = None, st_result = None\<rparr>), Sleep 5,
         Clock 13, Get_status (Inr \<lparr>st_status = Some ''running'',
           st_estimate_time = None, st_message = None, st_result = None\<rparr>), Sleep 5]\<rparr>)"
  by (simp add: poll_loop.simps pre_wait.simps wait_for_completion_def default_config_def time_time_def time_sleep_def
        get_task_status_def poll_step_def try_body_def progress_line_def sleep_and_check_def next_interval_def
        status_of_def numeral_eq_Suc)

text \<open>
  Claim C3, as amended. A successful status fetch that follows a successful one (the error
  counter is 0) leaves the error counter unchanged, and adds one to the poll count, which
  is the count that \<open>limited_retry_strategy\<close> compares with \<open>max_retries\<close>.
\<close>

theorem C3_repeated_snapshot:
  assumes "status_replies w = rep # rest" and "status_response rep = Inr info"
    and "error_count s = 0"
    and "try_body cfg tid e el s w = Some (r, s', w')"
  shows "error_count s' = error_count s \<and> check_count s' = check_count s + 1"
  using try_body_success_counters [OF assms(1,2,4)] assms(3) by simp

theorem C3_repeated_snapshot_witness:
  "error_count \<lparr>check_count = 2, error_count = 0\<rparr> = error_count \<lparr>check_count = 1, error_count = 0\<rparr>
   \<and> check_count \<lparr>check_count = 2, error_count = 0\<rparr> = check_count \<lparr>check_count = 1, error_count = 0\<rparr> + 1
   \<and> try_body default_config ''t1'' 0 7 \<lparr>check_count = 1, error_count = 0\<rparr>
     \<lparr>clock = [], sleeps = [Slept],
      status_replies = [Response 200 (Some \<lparr>st_status = Some ''running'',
         st_estimate_time = None, st_message = None, st_result = None\<rparr>)],
      result_replies = [], trace = []\<rparr> =
   Some (Continue, \<lparr>check_count = 2, error_count = 0\<rparr>,
     \<lparr>clock = [], sleeps = [], status_replies = [], result_replies = [],
      trace = [Get_status (Inr \<lparr>st_status = Some ''running'',
         st_estimate_time = None, st_message = None, st_result = None\<rparr>), Sleep 5]\<rparr>)"
proof -
  have run: "try_body default_config ''t1'' 0 7 \<lparr>check_count = 1, error_count = 0\<rparr>
     \<lparr>clock = [], sleeps = [Slept],
      status_replies = [Response 200 (Some \<lparr>st_status = Some ''running'',
         st_estimate_time = None, st_message = None, st_result = None\<rparr>)],
      result_replies = [], trace = []\<rparr> =
   Some (Continue, \<lparr>check_count = 2, error_count = 0\<rparr>,
     \<lparr>clock = [], sleeps = [], status_replies = [], result_replies = [],
      trace = [Get_status (Inr \<lparr>st_status = Some ''running'',
         st_estimate_time = None, st_message = None, st_result = None\<rparr>), Sleep 5]\<rparr>)"
    by (simp add: default_config_def time_sleep_def
        get_task_status_def try_body_def progress_line_def sleep_and_check_def next_interval_def status_of_def)
  from C3_repeated_snapshot [OF _ _ _ run, of _ "[]" "\<lparr>st_status = Some ''running'',
         st_estimate_time = None, st_message = None, st_result = None\<rparr>"] run
  show ?thesis by simp
qed

subsection \<open>User interrupts\<close>

text \<open>
  Claim C4 at three suspension points, with the default policy. An interrupt during the
  pre-wait of phase 1 (estimate 10) leaves \<^verbatim>\<open>wait_for_completion\<close> as a raised
  \<^verbatim>\<open>KeyboardInterrupt\<close>, and so does an interrupt during the sleep that follows a failed
  status fetch; an interrupt during the sleep between two polls returns the interrupt
  record with the task identifier.
\<close>

theorem C4_interrupt_escapes:
  "wait_for_completion default_config ''t1'' 10 1800
     \<lparr>clock = [0, 0, 0], sleeps = [Sleep_interrupted], status_replies = [],
      result_replies = [], trace = []\<rparr> =
   Some (Inl KeyboardInterrupt,
     \<lparr>clock = [], sleeps = [], status_replies = [], result_replies = [],
      trace = [Clock 0, Clock 0, Clock 0, Sleep 1]\<rparr>)
   \<and>
   wait_for_completion default_config ''t1'' 0 1800
     \<lparr>clock = [0, 1], sleeps = [Sleep_interrupted], status_replies = [Request_failed],
      result_replies = [], trace = []\<rparr> =
   Some (Inl KeyboardInterrupt,
     \<lparr>clock = [], sleeps = [], status_replies = [], result_replies = [],
      trace = [Clock 0, Clock 1, Get_status (Inl RequestException), Sleep 5]\<rparr>)
   \<and>
   wait_for_completion default_config ''t1'' 0 1800
     \<lparr>clock = [0, 1], sleeps = [Sleep_interrupted],
      status_replies = [Response 200 (Some \<lparr>st_status = Some ''running'',
         st_estimate_time = None, st_message = None, st_result = None\<rparr>)],
      result_replies = [], trace = []\<rparr> =
   Some (Inr (Interrupted ''t1''),
     \<lparr>clock = [], sleeps = [], status_replies = [], result_replies = [],
      trace = [Clock 0, Clock 1, Get_status (Inr \<lparr>st_status = Some ''running'',
         st_estimate_time = None, st_message = None, st_result = None\<rparr>), Sleep 5]\<rparr>)"
  by (simp add: poll_loop.simps pre_wait.simps wait_for_completion_def default_config_def time_time_def time_sleep_def
        get_task_status_def poll_step_def try_body_def progress_line_def sleep_and_check_def next_interval_def
        on_exception_def status_of_def)

subsection \<open>The polling limit\<close>

lemma status_polls_append [simp]:
  "status_polls (xs @ ys) = status_polls xs + status_polls ys"
  by (simp add: status_polls_def)

lemma status_polls_simps [simp]:
  "status_polls [] = 0"
  "status_polls (Clock t # tr) = status_polls tr"
  "status_polls (Sleep d # tr) = status_polls tr"
  "status_polls (Get_results x # tr) = status_polls tr"
  "status_polls (Get_status (Inl ex) # tr) = status_polls tr"
  "status_polls (Get_status (Inr info) # tr) = Suc (status_polls tr)"
  by (simp_all add: status_polls_def)

lemma time_time_polls:
  "time_time w = Some (t, w') \<Longrightarrow> status_polls (trace w') = status_polls (trace w)"
  by (auto simp: time_time_def split: list.splits)

lemma time_sleep_polls:
  "time_sleep d w = Some (r, w') \<Longrightarrow> status_polls (trace w') = status_polls (trace w)"
  by (auto simp: time_sleep_def split: list.splits if_splits)

lemma get_task_results_polls:
  "get_task_results tid w = Some (r, w') \<Longrightarrow> status_polls (trace w') = status_polls (trace w)"
  by (auto simp: get_task_results_def split: list.splits)

lemma sleep_and_check_polls:
  "sleep_and_check cfg e el info s w = Some (r, s', w') \<Longrightarrow>
   s' = s \<and> status_polls (trace w') = status_polls (trace w)"
  by (auto simp: sleep_and_check_def split: option.splits sum.splits if_splits
           dest!: time_sleep_polls)

lemma confirm_completed_polls:
  "confirm_completed cfg tid e el info s w = Some (r, s', w') \<Longrightarrow>
   s' = s \<and> status_polls (trace w') = status_polls (trace w)"
  by (auto simp: confirm_completed_def Let_def split: option.splits sum.splits if_splits
           dest!: get_task_results_polls sleep_and_check_polls)

lemma on_exception_polls:
  "on_exception cfg tid ex s w = Some (r, s', w') \<Longrightarrow>
   status_polls (trace w') = status_polls (trace w)"
  by (auto simp: on_exception_def Let_def split: option.splits sum.splits if_splits
           dest!: time_sleep_polls)

lemma try_body_polls:
  "try_body cfg tid e el s w = Some (r, s', w') \<Longrightarrow>
   int (status_polls (trace w')) = int (status_polls (trace w)) + (check_count s' - check_count s)"
  unfolding try_body_def Let_def get_task_status_def
  by (auto split: option.splits sum.splits if_splits list.splits
           dest!: sleep_and_check_polls confirm_completed_polls)

lemma poll_step_polls:
  assumes "poll_step cfg tid e mw st s w = Some (r, s', w')"
  shows "int (status_polls (trace w')) =
           int (status_polls (trace w)) + (check_count s' - check_count s)"
proof -
  from assms obtain now w0 where t: "time_time w = Some (now, w0)"
    by (auto simp: poll_step_def split: option.splits)
  note p0 = time_time_polls [OF t]
  show ?thesis
  proof (cases "now - st > of_int mw")
    case True
    with assms t p0 show ?thesis by (simp add: poll_step_def)
  next
    case False
    with assms t obtain r1 s1 w1 where
      tb: "try_body cfg tid e (now - st) s w0 = Some (r1, s1, w1)"
      and p: "(case r1 of Raise ex \<Rightarrow> on_exception cfg tid ex s1 w1 | _ \<Rightarrow> Some (r1, s1, w1))
                = Some (r, s', w')"
      by (auto simp: poll_step_def split: option.splits step.splits)
    from p have "status_polls (trace w') = status_polls (trace w1) \<and> check_count s' = check_count s1"
      by (cases r1) (auto dest: on_exception_polls on_exception_check_count)
    with try_body_polls [OF tb] p0 show ?thesis by simp
  qed
qed

lemma poll_loop_polls:
  "poll_loop cfg tid e mw st s w = Some (r, s', w') \<Longrightarrow>
   int (status_polls (trace w')) = int (status_polls (trace w)) + (check_count s' - check_count s)"
proof (induction cfg tid e mw st s w rule: poll_loop.induct)
  case (1 cfg tid e mw st s w)
  from "1.prems" obtain r1 s1 w1 where ps: "poll_step cfg tid e mw st s w = Some (r1, s1, w1)"
    by (subst (asm) poll_loop.simps) (auto split: option.splits)
  note sp = poll_step_polls [OF ps]
  show ?case
  proof (cases r1)
    case Continue
    with ps "1.prems" have "poll_loop cfg tid e mw st s1 w1 = Some (r, s', w')"
      by (simp add: poll_loop_continue)
    from "1.IH" [OF ps [unfolded Continue] refl refl refl this] sp show ?thesis
      by simp
  next
    case (Return x)
    with ps "1.prems" sp show ?thesis by (simp add: poll_loop_return)
  next
    case (Raise x)
    with ps "1.prems" sp show ?thesis by (simp add: poll_loop_raise)
  qed
qed


lemma pre_wait_polls:
  "pre_wait e ws w = Some (r, w') \<Longrightarrow> status_polls (trace w') = status_polls (trace w)"
proof (induction e ws w rule: pre_wait.induct)
  case (1 e ws w)
  from "1.prems" obtain now w1 where t: "time_time w = Some (now, w1)"
    by (subst (asm) pre_wait.simps) (auto split: option.splits)
  note p1 = time_time_polls [OF t]
  show ?case
  proof (cases "now - ws \<ge> of_int e")
    case True
    with "1.prems" t p1 show ?thesis by (subst (asm) pre_wait.simps) auto
  next
    case False
    with "1.prems" t obtain sr w2 where sl: "time_sleep 1 w1 = Some (sr, w2)"
      by (subst (asm) pre_wait.simps) (auto split: option.splits)
    note p2 = time_sleep_polls [OF sl]
    show ?thesis
    proof (cases sr)
      case (Inl ex)
      with "1.prems" t False sl p1 p2 show ?thesis
        by (subst (asm) pre_wait.simps) auto
    next
      case (Inr u)
      with "1.prems" t False sl have "pre_wait e ws w2 = Some (r, w')"
        by (subst (asm) pre_wait.simps) auto
      from "1.IH" [OF t refl False sl [unfolded Inr] refl refl this] p1 p2
      show ?thesis by simp
    qed
  qed
qed

lemma wait_for_completion_cases:
  assumes "wait_for_completion cfg tid e mw w = Some (r, w')"
  obtains (direct) start w0 sF where "\<not> (e > 0 \<and> respect_estimate_time cfg)"
      "time_time w = Some (start, w0)"
      "poll_loop cfg tid e mw start \<lparr>check_count = 0, error_count = 0\<rparr> w0 = Some (r, sF, w')"
  | (interrupted) start w0 ws w1 ex where "e > 0" "respect_estimate_time cfg"
      "time_time w = Some (start, w0)" "time_time w0 = Some (ws, w1)"
      "pre_wait e ws w1 = Some (Inl ex, w')" "r = Inl ex"
  | (waited) start w0 ws w1 w2 sF where "e > 0" "respect_estimate_time cfg"
      "time_time w = Some (start, w0)" "time_time w0 = Some (ws, w1)"
      "pre_wait e ws w1 = Some (Inr (), w2)"
      "poll_loop cfg tid e mw start \<lparr>check_count = 0, error_count = 0\<rparr> w2 = Some (r, sF, w')"
  using assms unfolding wait_for_completion_def Let_def
  by (auto split: option.splits if_splits sum.splits)


text \<open>
  Claim C6 at three inputs, with the default policy (\<open>limited_retry_strategy\<close>,
  \<open>max_retries = 3\<close>, \<open>retry_on_error\<close>). The polling limit is tested at the end of the
  \<^verbatim>\<open>try\<close> body (line 438), so an exception raised after \<open>check_count += 1\<close> and handled
  by the retry of lines 449-462 skips the test. With estimate 1, three running snapshots whose
  \<^verbatim>\<open>estimate_time\<close> is \<^verbatim>\<open>null\<close> make the progress line of line 357 fail three times; the
  wait returns \<^verbatim>\<open>polling_limit_reached\<close> after a fourth poll. With a completed status that
  embeds its result as a list, the assignment of line 368 fails at every poll, each successful
  fetch resets the error counter, and the wait polls (here four times) until
  \<^verbatim>\<open>TimeoutError\<close>. With three well-formed running snapshots the wait returns
  \<^verbatim>\<open>polling_limit_reached\<close> after three polls.
\<close>

theorem C6_limit_test_skipped:
  "map_option (\<lambda>(r, w'). (r, status_polls (trace w')))
     (wait_for_completion default_config ''t1'' 1 1800
        \<lparr>clock = [0, 0, 1, 1, 6, 11, 16], sleeps = [Slept, Slept, Slept, Slept],
         status_replies =
           [Response 200 (Some \<lparr>st_status = Some ''running'', st_estimate_time = Some JNull,
                                 st_message = None, st_result = None\<rparr>),
            Response 200 (Some \<lparr>st_status = Some ''running'', st_estimate_time = Some JNull,
                                 st_message = None, st_result = None\<rparr>),
            Response 200 (Some \<lparr>st_status = Some ''running'', st_estimate_time = Some JNull,
                                 st_message = None, st_result = None\<rparr>),
            Response 200 (Some \<lparr>st_status = Some ''running'', st_estimate_time = Some (JNum 30),
                                 st_message = None, st_result = None\<rparr>)],
         result_replies = [], trace = []\<rparr>) =
   Some (Inr (Polling_limit_reached
                \<lparr>st_status = Some ''polling_limit_reached'', st_estimate_time = Some (JNum 30),
                 st_message = None, st_result = None\<rparr>), 4)
   \<and>
   map_option (\<lambda>(r, w'). (r, status_polls (trace w')))
     (wait_for_completion default_config ''t1'' 0 1800
        \<lparr>clock = [0, 1, 7, 13, 19, 1801], sleeps = [Slept, Slept, Slept, Slept],
         status_replies =
           [Response 200 (Some \<lparr>st_status = Some ''completed'', st_estimate_time = None,
              st_message = None, st_result = Some (JArray [JObject [(''group'', JStr ''a'')]])\<rparr>),
            Response 200 (Some \<lparr>st_status = Some ''completed'', st_estimate_time = None,
              st_message = None, st_result = Some (JArray [JObject [(''group'', JStr ''a'')]])\<rparr>),
            Response 200 (Some \<lparr>st_status = Some ''completed'', st_estimate_time = None,
              st_message = None, st_result = Some (JArray [JObject [(''group'', JStr ''a'')]])\<rparr>),
            Response 200 (Some \<lparr>st_status = Some ''completed'', st_estimate_time = None,
              st_message = None, st_result = Some (JArray [JObject [(''group'', JStr ''a'')]])\<rparr>)],
         result_replies = [], trace = []\<rparr>) =
   Some (Inl TimeoutError, 4)
   \<and>
   map_option (\<lambda>(r, w'). (r, status_polls (trace w')))
     (wait_for_completion default_config ''t1'' 1 1800
        \<lparr>clock = [0, 0, 1, 1, 6, 11], sleeps = [Slept, Slept, Slept],
         status_replies =
           [Response 200 (Some \<lparr>st_status = Some ''running'', st_estimate_time = Some (JNum 30),
                                 st_message = None, st_result = None\<rparr>),
            Response 200 (Some \<lparr>st_status = Some ''running'', st_estimate_time = Some (JNum 30),
                                 st_message = None, st_result = None\<rparr>),
            Response 200 (Some \<lparr>st_status = Some ''running'', st_estimate_time = Some (JNum 30),
                                 st_message = None, st_result = None\<rparr>)],
         result_replies = [], trace = []\<rparr>) =
   Some (Inr (Polling_limit_reached
                \<lparr>st_status = Some ''polling_limit_reached'', st_estimate_time = Some (JNum 30),
                 st_message = None, st_result = None\<rparr>), 3)"
  by (simp add: poll_loop.simps pre_wait.simps wait_for_completion_def default_config_def
        time_time_def time_sleep_def get_task_status_def poll_step_def try_body_def
        progress_line_def sleep_and_check_def next_interval_def on_exception_def status_of_def)

subsection \<open>The pre-wait of phase 1\<close>

lemma extends_refl [simp]: "extends w w"
  by (simp add: extends_def)

lemma extends_trans: "extends w w1 \<Longrightarrow> extends w1 w2 \<Longrightarrow> extends w w2"
  by (auto simp: extends_def)

lemma time_time_extends: "time_time w = Some (t, w') \<Longrightarrow> extends w w'"
  by (auto simp: time_time_def extends_def split: list.splits)

lemma time_sleep_extends: "time_sleep d w = Some (r, w') \<Longrightarrow> extends w w'"
  by (auto simp: time_sleep_def extends_def split: list.splits if_splits)

lemma get_task_status_extends: "get_task_status tid w = Some (r, w') \<Longrightarrow> extends w w'"
  by (auto simp: get_task_status_def extends_def split: list.splits)

lemma get_task_results_extends: "get_task_results tid w = Some (r, w') \<Longrightarrow> extends w w'"
  by (auto simp: get_task_results_def extends_def split: list.splits)

lemma sleep_and_check_extends:
  "sleep_and_check cfg e el info s w = Some (r, s', w') \<Longrightarrow> extends w w'"
  by (auto simp: sleep_and_check_def split: option.splits sum.splits if_splits
           dest!: time_sleep_extends)

lemma confirm_completed_extends:
  "confirm_completed cfg tid e el info s w = Some (r, s', w') \<Longrightarrow> extends w w'"
  by (auto simp: confirm_completed_def Let_def split: option.splits sum.splits if_splits
           dest!: get_task_results_extends sleep_and_check_extends intro: extends_trans)

lemma try_body_extends:
  "try_body cfg tid e el s w = Some (r, s', w') \<Longrightarrow> extends w w'"
  unfolding try_body_def Let_def
  by (auto split: option.splits sum.splits if_splits
           dest!: get_task_status_extends confirm_completed_extends sleep_and_check_extends
           intro: extends_trans)

lemma on_exception_extends:
  "on_exception cfg tid ex s w = Some (r, s', w') \<Longrightarrow> extends w w'"
  by (auto simp: on_exception_def Let_def split: option.splits sum.splits if_splits
           dest!: time_sleep_extends)

lemma poll_step_extends:
  "poll_step cfg tid e mw st s w = Some (r, s', w') \<Longrightarrow> extends w w'"
  unfolding poll_step_def Let_def
  by (auto split: option.splits if_splits step.splits
           dest!: time_time_extends try_body_extends on_exception_extends)
     (meson extends_trans)+

lemma poll_loop_extends:
  "poll_loop cfg tid e mw st s w = Some (r, s', w') \<Longrightarrow> extends w w'"
proof (induction cfg tid e mw st s w rule: poll_loop.induct)
  case (1 cfg tid e mw st s w)
  from "1.prems" obtain r1 s1 w1 where ps: "poll_step cfg tid e mw st s w = Some (r1, s1, w1)"
    by (subst (asm) poll_loop.simps) (auto split: option.splits)
  note x = poll_step_extends [OF ps]
  show ?case
  proof (cases r1)
    case Continue
    with ps "1.prems" have pl: "poll_loop cfg tid e mw st s1 w1 = Some (r, s', w')"
      by (simp add: poll_loop_continue)
    from "1.IH" [OF ps [unfolded Continue] refl refl refl pl] x
    show ?thesis by (rule extends_trans [rotated])
  next
    case (Return y)
    with ps "1.prems" x show ?thesis by (auto simp: poll_loop_return)
  next
    case (Raise y)
    with ps "1.prems" x show ?thesis by (auto simp: poll_loop_raise)
  qed
qed

lemma pre_wait_trace:
  "pre_wait e ws w = Some (r, w') \<Longrightarrow>
   \<exists>pre. trace w' = trace w @ pre \<and> (\<forall>a\<in>set pre. is_wait_action a) \<and>
         (r = Inr () \<longrightarrow> (\<exists>t. pre \<noteq> [] \<and> last pre = Clock t \<and> t - ws \<ge> of_int e))"
proof (induction e ws w rule: pre_wait.induct)
  case (1 e ws w)
  from "1.prems" obtain now w1 where t: "time_time w = Some (now, w1)"
    by (subst (asm) pre_wait.simps) (auto split: option.splits)
  then have tr1: "trace w1 = trace w @ [Clock now]"
    by (auto simp: time_time_def split: list.splits)
  show ?case
  proof (cases "now - ws \<ge> of_int e")
    case True
    with "1.prems" t have "r = Inr ()" "w' = w1"
      by (subst (asm) pre_wait.simps, simp)+
    with tr1 True show ?thesis by (intro exI [of _ "[Clock now]"]) simp
  next
    case False
    with "1.prems" t obtain sr w2 where sl: "time_sleep 1 w1 = Some (sr, w2)"
      by (subst (asm) pre_wait.simps) (auto split: option.splits)
    then have tr2: "trace w2 = trace w1 @ [Sleep 1]"
      by (auto simp: time_sleep_def split: list.splits)
    show ?thesis
    proof (cases sr)
      case (Inl ex)
      with "1.prems" t False sl have "r = Inl ex" "w' = w2"
        by (subst (asm) pre_wait.simps, simp)+
      with tr1 tr2 show ?thesis by (intro exI [of _ "[Clock now, Sleep 1]"]) simp
    next
      case (Inr u)
      with "1.prems" t False sl have "pre_wait e ws w2 = Some (r, w')"
        by (subst (asm) pre_wait.simps) auto
      from "1.IH" [OF t refl False sl [unfolded Inr] refl refl this]
      obtain pre where p: "trace w' = trace w2 @ pre" "\<forall>a\<in>set pre. is_wait_action a"
        "r = Inr () \<longrightarrow> (\<exists>t. pre \<noteq> [] \<and> last pre = Clock t \<and> t - ws \<ge> of_int e)"
        by blast
      with tr1 tr2 show ?thesis
        by (intro exI [of _ "[Clock now, Sleep 1] @ pre"]) auto
    qed
  qed
qed

text \<open>
  Claim C8. With a positive estimate and \<open>respect_estimate_time\<close>, the trace of a wait is:
  the two clock readings \<open>start_time\<close> and \<open>wait_start\<close>, then a phase that only reads the
  clock and sleeps one second at a time, then the poll loop. Anything the poll loop does, and
  so every status fetch, comes after a clock reading of phase 1 that shows the whole estimate
  elapsed since \<open>wait_start\<close>.
\<close>

theorem C8_no_poll_before_estimate:
  assumes "e > 0" and "respect_estimate_time cfg"
    and run: "wait_for_completion cfg tid e mw w = Some (r, w')"
  shows "\<exists>start ws pre post.
           trace w' = trace w @ [Clock start, Clock ws] @ pre @ post \<and>
           (\<forall>a\<in>set pre. is_wait_action a) \<and>
           (post \<noteq> [] \<longrightarrow> (\<exists>t. pre \<noteq> [] \<and> last pre = Clock t \<and> t - ws \<ge> of_int e))"
using run proof (cases rule: wait_for_completion_cases)
  case (direct start w0 sF)
  with assms show ?thesis by simp
next
  case (interrupted start w0 ws w1 ex)
  from interrupted(3,4) have tr: "trace w1 = trace w @ [Clock start, Clock ws]"
    by (auto simp: time_time_def split: list.splits)
  from pre_wait_trace [OF interrupted(5)] obtain pre where
    "trace w' = trace w1 @ pre" "\<forall>a\<in>set pre. is_wait_action a" by blast
  with tr show ?thesis
    by (intro exI [of _ start] exI [of _ ws] exI [of _ pre] exI [of _ "[]"]) simp
next
  case (waited start w0 ws w1 w2 sF)
  from waited(3,4) have tr: "trace w1 = trace w @ [Clock start, Clock ws]"
    by (auto simp: time_time_def split: list.splits)
  from pre_wait_trace [OF waited(5)] obtain pre t where
    p: "trace w2 = trace w1 @ pre" "\<forall>a\<in>set pre. is_wait_action a"
       "pre \<noteq> []" "last pre = Clock t" "t - ws \<ge> of_int e" by blast
  from poll_loop_extends [OF waited(6)] obtain post where "trace w' = trace w2 @ post"
    by (auto simp: extends_def)
  with tr p show ?thesis
    by (intro exI [of _ start] exI [of _ ws] exI [of _ pre] exI [of _ post]) auto
qed


theorem C8_no_poll_before_estimate_witness:
  "wait_for_completion default_config ''t1'' 2 1800
     \<lparr>clock = [0, 0, 0, 1, 2, 2], sleeps = [Slept, Slept],
      status_replies = [Response 200 (Some \<lparr>st_status = Some ''completed'',
         st_estimate_time = None, st_message = None, st_result = Some (JObject [(''groups'', JNum 3)])\<rparr>)],
      result_replies = [], trace = []\<rparr> =
   Some (Inr (Completed_with_result [(''groups'', JNum 3)]),
     \<lparr>clock = [], sleeps = [], status_replies = [], result_replies = [],
      trace = [Clock 0, Clock 0, Clock 0, Sleep 1, Clock 1, Sleep 1, Clock 2, Clock 2,
               Get_status (Inr \<lparr>st_status = Some ''completed'',
         st_estimate_time = None, st_message = None, st_result = Some (JObject [(''groups'', JNum 3)])\<rparr>)]\<rparr>)
   \<and> (\<exists>start ws pre post.
         [Clock 0, Clock 0, Clock 0, Sleep 1, Clock 1, Sleep 1, Clock 2, Clock 2,
               Get_status (Inr \<lparr>st_status = Some ''completed'',
         st_estimate_time = None, st_message = None, st_result = Some (JObject [(''groups'', JNum 3)])\<rparr>)]
           = [Clock start, Clock ws] @ pre @ post \<and>
         (\<forall>a\<in>set pre. is_wait_action a) \<and>
         (post \<noteq> [] \<longrightarrow> (\<exists>t. pre \<noteq> [] \<and> last pre = Clock t \<and> t - ws \<ge> of_int 2)))"
proof -
  have run: "wait_for_completion default_config ''t1'' 2 1800
     \<lparr>clock = [0, 0, 0, 1, 2, 2], sleeps = [Slept, Slept],
      status_replies = [Response 200 (Some \<lparr>st_status = Some ''completed'',
         st_estimate_time = None, st_message = None, st_result = Some (JObject [(''groups'', JNum 3)])\<rparr>)],
      result_replies = [], trace = []\<rparr> =
   Some (Inr (Completed_with_result [(''groups'', JNum 3)]),
     \<lparr>clock = [], sleeps = [], status_replies = [], result_replies = [],
      trace = [Clock 0, Clock 0, Clock 0, Sleep 1, Clock 1, Sleep 1, Clock 2, Clock 2,
               Get_status (Inr \<lparr>st_status = Some ''completed'',
         st_estimate_time = None, st_message = None, st_result = Some (JObject [(''groups'', JNum 3)])\<rparr>)]\<rparr>)"
    by (simp add: wait_for_completion_def default_config_def time_time_def time_sleep_def
        pre_wait.simps poll_loop.simps
        get_task_status_def poll_step_def try_body_def progress_line_def status_of_def)
  have "(0::int) < 2" and "respect_estimate_time default_config"
    by (simp_all add: default_config_def)
  from C8_no_poll_before_estimate [OF this run] run show ?thesis by simp
qed

end
